theory Spec2Isabelle
  imports Complex_Main
begin

section \<open>Tutorial 2: the catalog workflow of \<^verbatim>\<open>Notebooks/02.Sessions.ipynb\<close>\<close>

text \<open>
  The notebook is a linear script: it removes a stale \<^verbatim>\<open>sessions.db\<close>, creates an engine
  and the two tables, opens a session, inserts 100 objects and 100 distances (one
  \<^verbatim>\<open>add\<close> and one \<^verbatim>\<open>commit\<close> per record) and runs three queries. Python floats are
  idealised as reals; the rows of a table are kept in rowid order, which is the order of
  an unordered SQLite scan.
\<close>

subsection \<open>Tables and the store file\<close>

text \<open>
  \<^verbatim>\<open>class Object(Base)\<close>: columns \<^verbatim>\<open>id\<close> (integer primary key), \<^verbatim>\<open>ra\<close>, \<^verbatim>\<open>dec\<close>.
  \<^verbatim>\<open>class Distance(Base)\<close>: columns \<^verbatim>\<open>id\<close> (integer primary key), \<^verbatim>\<open>object_id\<close>
  (declared \<^verbatim>\<open>ForeignKey("object.id")\<close>), \<^verbatim>\<open>distance\<close>. The two \<^verbatim>\<open>id\<close> columns are
  named \<open>oid\<close> and \<open>did\<close> here.
\<close>

record Object =
  oid :: int
  ra :: real
  dec :: real

record Distance =
  did :: int
  object_id :: int
  distance :: real

record database =
  object_table :: "Object list"
  distance_table :: "Distance list"

datatype errno = ENOENT | EACCES | EPERM | EISDIR | EBUSY | EROFS

datatype exn = OSError errno | ValueError | AttributeError

type_synonym path = string

text \<open>
  The disk: which paths hold a database, and the error (if any) with which the operating
  system refuses to unlink a path (a directory that is not writable, a file held open by
  another process, a read-only file system).
\<close>

record filesystem =
  files :: "path \<rightharpoonup> database"
  unlink_fault :: "errno option"

definition dbfile :: path where
  "dbfile = ''sessions.db''"

text \<open>\<^verbatim>\<open>os.remove(path)\<close>: raises \<^verbatim>\<open>OSError\<close> when the path is missing or the unlink is refused.\<close>

definition os_remove :: "path \<Rightarrow> filesystem \<Rightarrow> (exn + unit) \<times> filesystem" where
  "os_remove p fs =
     (case unlink_fault fs of
        Some e \<Rightarrow> (Inl (OSError e), fs)
      | None \<Rightarrow>
          (case files fs p of
             None \<Rightarrow> (Inl (OSError ENOENT), fs)
           | Some db \<Rightarrow> (Inr (), fs\<lparr>files := (files fs)(p := None)\<rparr>)))"

text \<open>
  The cell
  \<^verbatim>\<open>try: os.remove(dbfile)\<close>
  \<^verbatim>\<open>except: pass\<close>
  The bare \<^verbatim>\<open>except\<close> catches whatever \<^verbatim>\<open>os.remove\<close> raised.
\<close>

definition remove_stale :: "filesystem \<Rightarrow> (exn + unit) \<times> filesystem" where
  "remove_stale fs =
     (case os_remove dbfile fs of
        (Inl e, fs') \<Rightarrow> (Inr (), fs')
      | (Inr u, fs') \<Rightarrow> (Inr (), fs'))"

text \<open>\<^verbatim>\<open>sq.create_engine('sqlite:///'+dbfile)\<close>: lazy, the engine only remembers its URL.\<close>

record engine =
  url :: string

definition create_engine :: "string \<Rightarrow> engine" where
  "create_engine u = \<lparr>url = u\<rparr>"

definition sqlite_path :: "engine \<Rightarrow> path" where
  "sqlite_path e = drop (length ''sqlite:///'') (url e)"

definition empty_database :: database where
  "empty_database = \<lparr>object_table = [], distance_table = []\<rparr>"

text \<open>
  \<^verbatim>\<open>Base.metadata.create_all(engine)\<close> opens the file of the engine (creating it when it
  is missing) and creates the tables that do not exist yet; an existing table keeps its
  rows. The result is the content of the store file from then on.
\<close>

definition create_all :: "engine \<Rightarrow> filesystem \<Rightarrow> database" where
  "create_all e fs =
     (case files fs (sqlite_path e) of
        None \<Rightarrow> empty_database
      | Some db \<Rightarrow> db)"

subsection \<open>The session\<close>

text \<open>
  A new instance has no identifier until it is flushed: \<^verbatim>\<open>Object(ra=ra, dec=dec)\<close> and
  \<^verbatim>\<open>Distance(distance=d, object_id=i)\<close>.
\<close>

datatype new_instance = ObjectInst real real | DistanceInst real int

datatype event = INSERT string | COMMIT

record session =
  store :: database
  new :: "new_instance list"
  trace :: "event list"

definition DBSession :: "database \<Rightarrow> session" where
  "DBSession db = \<lparr>store = db, new = [], trace = []\<rparr>"

text \<open>
  An integer primary key of SQLite is the rowid: a row inserted without one gets 1 in an
  empty table and the largest rowid plus one otherwise.
\<close>

definition next_rowid :: "int list \<Rightarrow> int" where
  "next_rowid ids = (if ids = [] then 1 else Max (set ids) + 1)"

fun tablename :: "new_instance \<Rightarrow> string" where
  "tablename (ObjectInst r d) = ''object''"
| "tablename (DistanceInst d i) = ''distance''"

text \<open>
  One \<^verbatim>\<open>INSERT\<close>. SQLite does not enforce foreign keys unless the connection turns them
  on, and the notebook never does: the row is stored whatever its \<^verbatim>\<open>object_id\<close> (the
  notebook's recorded outputs show all 100 distances stored).
\<close>

fun insert_row :: "new_instance \<Rightarrow> database \<Rightarrow> database" where
  "insert_row (ObjectInst r d) db =
     db\<lparr>object_table := object_table db @
          [\<lparr>oid = next_rowid (map oid (object_table db)), ra = r, dec = d\<rparr>]\<rparr>"
| "insert_row (DistanceInst d i) db =
     db\<lparr>distance_table := distance_table db @
          [\<lparr>did = next_rowid (map did (distance_table db)), object_id = i, distance = d\<rparr>]\<rparr>"

definition session_add :: "new_instance \<Rightarrow> session \<Rightarrow> session" where
  "session_add x s = s\<lparr>new := new s @ [x]\<rparr>"

definition session_flush :: "session \<Rightarrow> session" where
  "session_flush s =
     s\<lparr>store := fold insert_row (new s) (store s),
       new := [],
       trace := trace s @ map (\<lambda>x. INSERT (tablename x)) (new s)\<rparr>"

definition session_commit :: "session \<Rightarrow> session" where
  "session_commit s = (let s' = session_flush s in s'\<lparr>trace := trace s' @ [COMMIT]\<rparr>)"

subsection \<open>Random numbers\<close>

text \<open>
  The generator is a tape of the values \<^verbatim>\<open>random.random()\<close> will return and the number
  of values drawn so far; \<^verbatim>\<open>random.uniform(a, b)\<close> is \<^verbatim>\<open>a + (b-a) * random()\<close>.
\<close>

record rng =
  tape :: "nat \<Rightarrow> real"
  drawn :: nat

definition random_uniform :: "real \<Rightarrow> real \<Rightarrow> rng \<Rightarrow> real \<times> rng" where
  "random_uniform a b g = (a + (b - a) * tape g (drawn g), g\<lparr>drawn := drawn g + 1\<rparr>)"

subsection \<open>The insert loops\<close>

text \<open>
  \<^verbatim>\<open>for i in range(100):\<close>
  \<^verbatim>\<open>    ra = random.uniform(9.0, 11.0)\<close>
  \<^verbatim>\<open>    dec = random.uniform(-30.0, -33.0)\<close>
  \<^verbatim>\<open>    new_object = Object(ra=ra, dec=dec)\<close>
  \<^verbatim>\<open>    session.add(new_object)\<close>
  \<^verbatim>\<open>    session.commit()\<close>
  The count is a parameter here; the notebook's is 100.
\<close>

definition object_step :: "nat \<Rightarrow> rng \<times> session \<Rightarrow> rng \<times> session" where
  "object_step i = (\<lambda>(g, s).
     let (ra, g1) = random_uniform 9 11 g;
         (dec, g2) = random_uniform (- 30) (- 33) g1;
         new_object = ObjectInst ra dec
     in (g2, session_commit (session_add new_object s)))"

definition insert_objects :: "nat \<Rightarrow> rng \<times> session \<Rightarrow> rng \<times> session" where
  "insert_objects n = fold object_step [0..<n]"

text \<open>
  \<^verbatim>\<open>for i in range(100):\<close>
  \<^verbatim>\<open>    d = random.uniform(40, 60)\<close>
  \<^verbatim>\<open>    new_distance = Distance(distance=d, object_id=i)\<close>
  \<^verbatim>\<open>    session.add(new_distance)\<close>
  \<^verbatim>\<open>    session.commit()\<close>
\<close>

definition distance_step :: "nat \<Rightarrow> rng \<times> session \<Rightarrow> rng \<times> session" where
  "distance_step i = (\<lambda>(g, s).
     let (d, g1) = random_uniform 40 60 g;
         new_distance = DistanceInst d (int i)
     in (g1, session_commit (session_add new_distance s)))"

definition insert_distances :: "nat \<Rightarrow> rng \<times> session \<Rightarrow> rng \<times> session" where
  "insert_distances n = fold distance_step [0..<n]"

subsection \<open>The workflow\<close>

text \<open>
  The cells in order. An exception that leaves a cell stops the run (\<open>Inl\<close>); otherwise
  the session after the two loops is the result.
\<close>

definition populate :: "nat \<Rightarrow> rng \<Rightarrow> filesystem \<Rightarrow> session" where
  "populate n g fs =
     (let engine = create_engine (''sqlite:///'' @ dbfile);
          db = create_all engine fs;
          session = DBSession db;
          gs1 = insert_objects n (g, session);
          gs2 = insert_distances n gs1
      in snd gs2)"

definition catalog_workflow :: "nat \<Rightarrow> rng \<Rightarrow> filesystem \<Rightarrow> exn + session" where
  "catalog_workflow n g fs =
     (case remove_stale fs of
        (Inl e, fs') \<Rightarrow> Inl e
      | (Inr u, fs') \<Rightarrow> Inr (populate n g fs'))"

subsection \<open>Queries\<close>

text \<open>
  A query flushes what is pending (autoflush) and scans the table. \<^verbatim>\<open>first()\<close> is the
  first row of the result, or \<^verbatim>\<open>None\<close>.
\<close>

definition query_Object :: "session \<Rightarrow> Object list" where
  "query_Object s = object_table (store (session_flush s))"

definition query_Distance :: "session \<Rightarrow> Distance list" where
  "query_Distance s = distance_table (store (session_flush s))"

definition first :: "'a list \<Rightarrow> 'a option" where
  "first rows = (case rows of [] \<Rightarrow> None | r # rs \<Rightarrow> Some r)"

text \<open>\<^verbatim>\<open>session.query(Distance).filter(Distance.object_id==v)\<close>\<close>

definition filter_object_id :: "int \<Rightarrow> Distance list \<Rightarrow> Distance list" where
  "filter_object_id v rows = filter (\<lambda>d. object_id d = v) rows"

text \<open>
  The last cell reads \<^verbatim>\<open>d.first().distance\<close>: the attribute of \<^verbatim>\<open>None\<close> does not exist.
\<close>

definition first_distance :: "int \<Rightarrow> session \<Rightarrow> exn + real" where
  "first_distance v s =
     (case first (filter_object_id v (query_Distance s)) of
        None \<Rightarrow> Inl AttributeError
      | Some d \<Rightarrow> Inr (distance d))"

text \<open>\<^verbatim>\<open>np.array([d.distance for d in dist])\<close>\<close>

definition all_distances :: "session \<Rightarrow> real list" where
  "all_distances s = map distance (query_Distance s)"

subsection \<open>Closed forms of the loops and the declared constraint\<close>

text \<open>
  The store as the session finds it: the cells up to \<^verbatim>\<open>DBSession()\<close>, before any insert.
\<close>

definition opened_store :: "filesystem \<Rightarrow> database" where
  "opened_store fs = create_all (create_engine (''sqlite:///'' @ dbfile)) (snd (remove_stale fs))"

text \<open>
  A run starts fresh when no store file is left after the removal cell: the file was
  missing, or the operating system let it be removed.
\<close>

definition fresh_start :: "filesystem \<Rightarrow> bool" where
  "fresh_start fs = (unlink_fault fs = None \<or> files fs dbfile = None)"

text \<open>
  The rows \<open>n\<close> iterations of each loop append, from the generator \<open>g\<close> at loop entry and
  the first free rowid \<open>r\<close>; \<open>insert_objects_closed\<close> and \<open>insert_distances_closed\<close> below
  prove that the loops compute them.
\<close>

definition object_rows :: "rng \<Rightarrow> int \<Rightarrow> nat \<Rightarrow> Object list" where
  "object_rows g r n =
     map (\<lambda>k. \<lparr>oid = r + int k,
               ra = 9 + (11 - 9) * tape g (drawn g + 2 * k),
               dec = - 30 + (- 33 - (- 30)) * tape g (drawn g + 2 * k + 1)\<rparr>) [0..<n]"

definition distance_rows :: "rng \<Rightarrow> int \<Rightarrow> nat \<Rightarrow> Distance list" where
  "distance_rows g r n =
     map (\<lambda>k. \<lparr>did = r + int k,
               object_id = int k,
               distance = 40 + (60 - 40) * tape g (drawn g + k)\<rparr>) [0..<n]"

text \<open>
  The constraint the schema declares with \<^verbatim>\<open>sq.ForeignKey("object.id")\<close>: the
  \<^verbatim>\<open>object_id\<close> of every distance row is the \<^verbatim>\<open>id\<close> of a row of the object table.
\<close>

definition referential_integrity :: "database \<Rightarrow> bool" where
  "referential_integrity db =
     list_all (\<lambda>d. object_id d \<in> set (map oid (object_table db))) (distance_table db)"

text \<open>Inputs for the concrete runs below.\<close>

definition zero_tape :: "nat \<Rightarrow> real" where
  "zero_tape k = 0"

definition rng0 :: rng where
  "rng0 = \<lparr>tape = zero_tape, drawn = 0\<rparr>"

definition no_file :: filesystem where
  "no_file = \<lparr>files = Map.empty, unlink_fault = None\<rparr>"

definition earlier_run :: database where
  "earlier_run =
     \<lparr>object_table = [\<lparr>oid = 1, ra = 10, dec = - 31\<rparr>],
      distance_table = [\<lparr>did = 1, object_id = 7, distance = 50\<rparr>]\<rparr>"

definition removable_file :: filesystem where
  "removable_file = \<lparr>files = [dbfile \<mapsto> earlier_run], unlink_fault = None\<rparr>"

definition locked_file :: filesystem where
  "locked_file = \<lparr>files = [dbfile \<mapsto> earlier_run], unlink_fault = Some EACCES\<rparr>"

section \<open>Tutorial 3: estimating a simple mean\<close>

subsection \<open>The world: clock and normal samples\<close>

text \<open>
  \<open>clock w k\<close> is what \<^verbatim>\<open>time.time()\<close> returns (seconds) once \<open>k\<close> numpy calls have
  completed, \<open>ticks w\<close> the number of numpy calls completed so far. \<open>normal_tape\<close> holds the
  standard-normal samples \<^verbatim>\<open>np.random.randn\<close> will hand out, \<open>normal_drawn\<close> how many
  it has handed out.
\<close>

record world =
  clock :: "nat \<Rightarrow> real"
  ticks :: nat
  normal_tape :: "nat \<Rightarrow> real"
  normal_drawn :: nat

definition wallclock_time :: "world \<Rightarrow> real" where
  "wallclock_time w = clock w (ticks w)"

text \<open>\<^verbatim>\<open>np.random.randn(n)\<close>: a negative dimension raises \<^verbatim>\<open>ValueError\<close>.\<close>

definition np_random_randn :: "int \<Rightarrow> world \<Rightarrow> (exn + real list) \<times> world" where
  "np_random_randn n w =
     (if n < 0 then (Inl ValueError, w)
      else (Inr (map (\<lambda>k. normal_tape w (normal_drawn w + k)) [0..<nat n]),
            w\<lparr>ticks := ticks w + 1, normal_drawn := normal_drawn w + nat n\<rparr>))"

text \<open>
  The result of \<^verbatim>\<open>np.mean\<close>: the sum over the count, which is \<^verbatim>\<open>nan\<close> (with a warning,
  no exception) on an empty array.
\<close>

datatype float64 = NaN | Finite real

definition np_mean :: "real list \<Rightarrow> world \<Rightarrow> float64 \<times> world" where
  "np_mean xs w =
     (if xs = [] then NaN else Finite (sum_list xs / real (length xs)),
      w\<lparr>ticks := ticks w + 1\<rparr>)"

text \<open>
  \<^verbatim>\<open>np.round(x, d)\<close>: scale by \<open>10 ^ d\<close>, round to the nearest integer with ties to even,
  scale back.
\<close>

definition rint :: "real \<Rightarrow> int" where
  "rint x =
     (let f = \<lfloor>x\<rfloor>; r = x - of_int f
      in if r < 1 / 2 then f
         else if 1 / 2 < r then f + 1
         else if even f then f else f + 1)"

definition np_round :: "real \<Rightarrow> nat \<Rightarrow> real" where
  "np_round x d = of_int (rint (x * 10 ^ d)) / 10 ^ d"

text \<open>\<^verbatim>\<open>str\<close> on the non-negative integers \<^verbatim>\<open>range\<close> yields: the decimal digits.\<close>

function str :: "nat \<Rightarrow> string" where
  "str n =
     (if n < 10 then [''0123456789'' ! n]
      else str (n div 10) @ [''0123456789'' ! (n mod 10)])"
  by pat_completeness auto
termination
  by (relation "measure id") auto

declare str.simps [simp del]

subsection \<open>The class \<^verbatim>\<open>StellarPopulation\<close>\<close>

text \<open>
  The attributes \<^verbatim>\<open>N\<close>, \<^verbatim>\<open>rms_error\<close>, \<^verbatim>\<open>d_obs\<close> and \<^verbatim>\<open>id\<close> do not exist until
  \<^verbatim>\<open>generate\<close> has set them: \<open>None\<close> is the missing attribute.
\<close>

record StellarPopulation =
  self_distance :: real
  self_N :: "int option"
  self_rms_error :: "real option"
  self_d_obs :: "real list option"
  self_id :: "string list option"

text \<open>\<^verbatim>\<open>__init__(self, distance)\<close>\<close>

definition StellarPopulation_init :: "real \<Rightarrow> StellarPopulation" where
  "StellarPopulation_init d =
     \<lparr>self_distance = d, self_N = None, self_rms_error = None,
      self_d_obs = None, self_id = None\<rparr>"

definition default_N :: int where
  "default_N = 1000"

definition default_rms_error :: real where
  "default_rms_error = 1 / 10"

text \<open>
  \<^verbatim>\<open>self.N = N\<close>
  \<^verbatim>\<open>self.rms_error = rms_error\<close>
  \<^verbatim>\<open>self.d_obs = self.distance + (self.rms_error * self.distance) * np.random.randn(self.N)\<close>
  \<^verbatim>\<open>self.id = map(str, range(self.N))\<close>
  When \<^verbatim>\<open>randn\<close> raises, the first two assignments have already happened.
\<close>

definition generate ::
  "int \<Rightarrow> real \<Rightarrow> StellarPopulation \<Rightarrow> world \<Rightarrow> (exn + unit) \<times> StellarPopulation \<times> world" where
  "generate n rms self w =
     (let self1 = self\<lparr>self_N := Some n\<rparr>;
          self2 = self1\<lparr>self_rms_error := Some rms\<rparr>
      in case np_random_randn n w of
           (Inl e, w1) \<Rightarrow> (Inl e, self2, w1)
         | (Inr zs, w1) \<Rightarrow>
             (let self3 = self2\<lparr>self_d_obs :=
                    Some (map (\<lambda>z. self_distance self2 + (rms * self_distance self2) * z) zs)\<rparr>;
                  self4 = self3\<lparr>self_id := Some (map str [0..<nat n])\<rparr>
              in (Inr (), self4, w1)))"

text \<open>
  \<^verbatim>\<open>start = wallclock.time()\<close>
  \<^verbatim>\<open>mu = np.mean(self.d_obs)\<close>
  \<^verbatim>\<open>end = wallclock.time()\<close>
  \<^verbatim>\<open>time = (end-start) * 1e3\<close>
  \<^verbatim>\<open>return mu, time\<close>
  Nothing is assigned to \<^verbatim>\<open>self\<close>; reading a missing \<^verbatim>\<open>d_obs\<close> raises \<^verbatim>\<open>AttributeError\<close>.
\<close>

definition estimate_mean_distance ::
  "StellarPopulation \<Rightarrow> world \<Rightarrow> (exn + float64 \<times> real) \<times> StellarPopulation \<times> world" where
  "estimate_mean_distance self w =
     (let start = wallclock_time w
      in case self_d_obs self of
           None \<Rightarrow> (Inl AttributeError, self, w)
         | Some d_obs \<Rightarrow>
             (let (mu, w1) = np_mean d_obs w;
                  stop = wallclock_time w1;
                  time = (stop - start) * 1000
              in (Inr (mu, time), self, w1)))"

text \<open>
  The two cells that use the class:
  \<^verbatim>\<open>cluster = StellarPopulation(3.0)\<close>
  \<^verbatim>\<open>cluster.generate(10000000)\<close>
  \<^verbatim>\<open>mu, time = cluster.estimate_mean_distance()\<close>
  \<^verbatim>\<open>print "Estimated mean distance = ", mu\<close>
  \<^verbatim>\<open>print "Wallclock time spent = ", np.round(time,1), "milliseconds"\<close>
  with the distance and the count as parameters; the result is what is printed.
\<close>

definition tutorial3 :: "real \<Rightarrow> int \<Rightarrow> world \<Rightarrow> exn + float64 \<times> real" where
  "tutorial3 d n w =
     (let cluster = StellarPopulation_init d
      in case generate n default_rms_error cluster w of
           (Inl e, cluster1, w1) \<Rightarrow> Inl e
         | (Inr u, cluster1, w1) \<Rightarrow>
             (case estimate_mean_distance cluster1 w1 of
                (Inl e, cluster2, w2) \<Rightarrow> Inl e
              | (Inr (mu, time), cluster2, w2) \<Rightarrow> Inr (mu, np_round time 1)))"

text \<open>Inputs for the concrete runs below.\<close>

definition seconds :: "nat \<Rightarrow> real" where
  "seconds k = (if k = 0 then 100 else if k = 1 then 107 else 107 + 11 / 2000)"

definition alternating :: "nat \<Rightarrow> real" where
  "alternating k = (if even k then 1 else - 1)"

definition world0 :: world where
  "world0 = \<lparr>clock = seconds, ticks = 0, normal_tape = alternating, normal_drawn = 0\<rparr>"

section \<open>Properties of the catalog workflow\<close>

subsection \<open>Row identifiers\<close>

lemma next_rowid_snoc: "next_rowid (ids @ [next_rowid ids]) = next_rowid ids + 1"
  by (simp add: next_rowid_def)

lemma next_rowid_run:
  "next_rowid (ids @ map (\<lambda>k. next_rowid ids + int k) [0..<n]) = next_rowid ids + int n"
proof (induction n)
  case 0
  then show ?case by simp
next
  case (Suc n)
  let ?xs = "ids @ map (\<lambda>k. next_rowid ids + int k) [0..<n]"
  have "next_rowid (?xs @ [next_rowid ?xs]) = next_rowid ?xs + 1"
    by (rule next_rowid_snoc)
  with Suc show ?case by simp
qed

lemma map_offset_upto: "map (\<lambda>k. a + int k) [0..<n] = [a..a + int n - 1]"
proof (induction n)
  case 0
  then show ?case by simp
next
  case (Suc n)
  have "[a..a + int (Suc n) - 1] = [a..a + int n - 1] @ [a + int n]"
    using upto_rec2[of a "a + int n"] by simp
  with Suc show ?case by simp
qed

subsection \<open>One trip through a loop body, and the loops in closed form\<close>

lemma concat_replicate_snoc:
  "concat (replicate (Suc n) xs) = concat (replicate n xs) @ xs"
  by (induction n) simp_all

lemma commit_add:
  "new s = [] \<Longrightarrow>
   session_commit (session_add x s) =
     s\<lparr>store := insert_row x (store s), trace := trace s @ [INSERT (tablename x), COMMIT]\<rparr>"
  by (simp add: session_commit_def session_add_def session_flush_def Let_def)

lemma insert_objects_closed:
  assumes "new s = []"
  shows "insert_objects n (g, s) =
     (g\<lparr>drawn := drawn g + 2 * n\<rparr>,
      s\<lparr>store := (store s)\<lparr>object_table := object_table (store s) @
            object_rows g (next_rowid (map oid (object_table (store s)))) n\<rparr>,
        trace := trace s @ concat (replicate n [INSERT ''object'', COMMIT])\<rparr>)"
proof (induction n)
  case 0
  then show ?case by (simp add: insert_objects_def object_rows_def)
next
  case (Suc n)
  have step: "insert_objects (Suc n) (g, s) = object_step n (insert_objects n (g, s))"
    by (simp add: insert_objects_def)
  show ?case
    using assms next_rowid_run[of "map oid (object_table (store s))" n]
    by (simp add: step Suc object_step_def random_uniform_def commit_add object_rows_def
        concat_replicate_snoc o_def del: replicate.simps)
qed

lemma insert_distances_closed:
  assumes "new s = []"
  shows "insert_distances n (g, s) =
     (g\<lparr>drawn := drawn g + n\<rparr>,
      s\<lparr>store := (store s)\<lparr>distance_table := distance_table (store s) @
            distance_rows g (next_rowid (map did (distance_table (store s)))) n\<rparr>,
        trace := trace s @ concat (replicate n [INSERT ''distance'', COMMIT])\<rparr>)"
proof (induction n)
  case 0
  then show ?case by (simp add: insert_distances_def distance_rows_def)
next
  case (Suc n)
  have step: "insert_distances (Suc n) (g, s) = distance_step n (insert_distances n (g, s))"
    by (simp add: insert_distances_def)
  show ?case
    using assms next_rowid_run[of "map did (distance_table (store s))" n]
    by (simp add: step Suc distance_step_def random_uniform_def commit_add distance_rows_def
        concat_replicate_snoc o_def del: replicate.simps)
qed

subsection \<open>The cells before the loops\<close>

lemma remove_stale_returns: "fst (remove_stale fs) = Inr ()"
  by (simp add: remove_stale_def os_remove_def split: option.splits)

lemma workflow_returns:
  "catalog_workflow n g fs = Inr (populate n g (snd (remove_stale fs)))"
  using remove_stale_returns[of fs]
  by (cases "remove_stale fs") (simp add: catalog_workflow_def)

lemma sqlite_path_dbfile: "sqlite_path (create_engine (''sqlite:///'' @ dbfile)) = dbfile"
  by (simp add: sqlite_path_def create_engine_def)

lemma opened_store_eq:
  "opened_store fs =
     (case files (snd (remove_stale fs)) dbfile of None \<Rightarrow> empty_database | Some db \<Rightarrow> db)"
  unfolding opened_store_def create_all_def sqlite_path_dbfile ..

lemma opened_store_fresh: "fresh_start fs \<Longrightarrow> opened_store fs = empty_database"
  by (auto simp: fresh_start_def opened_store_eq remove_stale_def os_remove_def
      split: option.splits)

lemma opened_store_refused:
  "unlink_fault fs = Some e \<Longrightarrow> files fs dbfile = Some db \<Longrightarrow> opened_store fs = db"
  by (simp add: opened_store_eq remove_stale_def os_remove_def)

lemma fresh_start_removable: "fresh_start removable_file"
  by (simp add: fresh_start_def removable_file_def)

lemma fresh_start_no_file: "fresh_start no_file"
  by (simp add: fresh_start_def no_file_def)

subsection \<open>The whole run\<close>

lemma populate_closed:
  "populate n g fs =
     \<lparr>store = \<lparr>object_table = object_table (create_all (create_engine (''sqlite:///'' @ dbfile)) fs) @
                 object_rows g (next_rowid (map oid (object_table (create_all (create_engine (''sqlite:///'' @ dbfile)) fs)))) n,
               distance_table = distance_table (create_all (create_engine (''sqlite:///'' @ dbfile)) fs) @
                 distance_rows (g\<lparr>drawn := drawn g + 2 * n\<rparr>)
                   (next_rowid (map did (distance_table (create_all (create_engine (''sqlite:///'' @ dbfile)) fs)))) n\<rparr>,
      new = [],
      trace = concat (replicate n [INSERT ''object'', COMMIT]) @
              concat (replicate n [INSERT ''distance'', COMMIT])\<rparr>"
  by (simp add: populate_def Let_def DBSession_def insert_objects_closed insert_distances_closed)

lemma workflow_closed:
  "catalog_workflow n g fs =
     Inr \<lparr>store = \<lparr>object_table = object_table (opened_store fs) @
                 object_rows g (next_rowid (map oid (object_table (opened_store fs)))) n,
               distance_table = distance_table (opened_store fs) @
                 distance_rows (g\<lparr>drawn := drawn g + 2 * n\<rparr>)
                   (next_rowid (map did (distance_table (opened_store fs)))) n\<rparr>,
      new = [],
      trace = concat (replicate n [INSERT ''object'', COMMIT]) @
              concat (replicate n [INSERT ''distance'', COMMIT])\<rparr>"
  by (simp add: workflow_returns populate_closed opened_store_def)

lemma fresh_workflow:
  assumes "fresh_start fs"
  shows "catalog_workflow n g fs =
     Inr \<lparr>store = \<lparr>object_table = object_rows g 1 n,
                   distance_table = distance_rows (g\<lparr>drawn := drawn g + 2 * n\<rparr>) 1 n\<rparr>,
          new = [],
          trace = concat (replicate n [INSERT ''object'', COMMIT]) @
                  concat (replicate n [INSERT ''distance'', COMMIT])\<rparr>"
  by (simp add: workflow_closed opened_store_fresh[OF assms] empty_database_def next_rowid_def)

lemma query_Object_flushed: "new s = [] \<Longrightarrow> query_Object s = object_table (store s)"
  by (simp add: query_Object_def session_flush_def)

lemma query_Distance_flushed: "new s = [] \<Longrightarrow> query_Distance s = distance_table (store s)"
  by (simp add: query_Distance_def session_flush_def)

subsection \<open>The generated rows\<close>

lemma oid_object_rows: "map oid (object_rows g r n) = [r..r + int n - 1]"
  by (simp add: object_rows_def o_def map_offset_upto)

lemma length_object_rows: "length (object_rows g r n) = n"
  by (simp add: object_rows_def)

lemma length_distance_rows: "length (distance_rows g r n) = n"
  by (simp add: distance_rows_def)

lemma object_id_distance_rows: "map object_id (distance_rows g r n) = map int [0..<n]"
  by (simp add: distance_rows_def o_def)

lemma distinct_int_upt: "distinct (map int [0..<n])"
  by (simp add: distinct_map)

lemma first_object_rows:
  "0 < n \<Longrightarrow> \<exists>ob. first (object_rows g r n) = Some ob \<and> oid ob = r"
  by (cases n) (simp_all add: object_rows_def first_def upt_conv_Cons del: upt_Suc)

lemma first_distance_rows:
  "0 < n \<Longrightarrow> \<exists>d. first (distance_rows g r n) = Some d \<and> object_id d = 0"
  by (cases n) (simp_all add: distance_rows_def first_def upt_conv_Cons del: upt_Suc)

lemma filter_distance_rows:
  "filter_object_id v (distance_rows g r n) =
     (if 0 \<le> v \<and> v < int n
      then [\<lparr>did = r + v, object_id = v, distance = 40 + (60 - 40) * tape g (drawn g + nat v)\<rparr>]
      else [])"
proof (induction n)
  case 0
  then show ?case by (simp add: filter_object_id_def distance_rows_def)
next
  case (Suc n)
  have split: "distance_rows g r (Suc n) = distance_rows g r n @
      [\<lparr>did = r + int n, object_id = int n, distance = 40 + (60 - 40) * tape g (drawn g + n)\<rparr>]"
    by (simp add: distance_rows_def)
  have "filter_object_id v (distance_rows g r (Suc n)) =
      filter_object_id v (distance_rows g r n) @
      (if v = int n
       then [\<lparr>did = r + int n, object_id = int n, distance = 40 + (60 - 40) * tape g (drawn g + n)\<rparr>]
       else [])"
    by (auto simp: split filter_object_id_def)
  with Suc show ?case by auto
qed

lemma filter_object_id_Cons:
  "filter_object_id v (d # ds) =
     (if object_id d = v then d # filter_object_id v ds else filter_object_id v ds)"
  by (simp add: filter_object_id_def)

lemma no_object_zero: "0 \<notin> set (map oid (object_rows g 1 n))"
  by (simp add: oid_object_rows)

lemma count_list_concat_replicate:
  "count_list (concat (replicate n xs)) e = n * count_list xs e"
  by (induction n) simp_all

section \<open>Properties of the estimator\<close>

lemma generate_returns:
  assumes "0 \<le> n"
  shows "generate n rms self w =
     (Inr (),
      self\<lparr>self_N := Some n, self_rms_error := Some rms,
           self_d_obs := Some (map (\<lambda>k. self_distance self + rms * self_distance self *
                                normal_tape w (normal_drawn w + k)) [0..<nat n]),
           self_id := Some (map str [0..<nat n])\<rparr>,
      w\<lparr>ticks := ticks w + 1, normal_drawn := normal_drawn w + nat n\<rparr>)"
  using assms by (simp add: generate_def np_random_randn_def Let_def o_def)

lemma generate_raises:
  "n < 0 \<Longrightarrow> generate n rms self w =
     (Inl ValueError, self\<lparr>self_N := Some n, self_rms_error := Some rms\<rparr>, w)"
  by (simp add: generate_def np_random_randn_def Let_def)

lemma estimate_returns:
  assumes "self_d_obs self = Some obs"
  shows "estimate_mean_distance self w =
     (Inr (if obs = [] then NaN else Finite (sum_list obs / real (length obs)),
           (clock w (ticks w + 1) - clock w (ticks w)) * 1000),
      self, w\<lparr>ticks := ticks w + 1\<rparr>)"
  using assms by (simp add: estimate_mean_distance_def np_mean_def wallclock_time_def Let_def)

lemma estimate_raises:
  "self_d_obs self = None \<Longrightarrow> estimate_mean_distance self w = (Inl AttributeError, self, w)"
  by (simp add: estimate_mean_distance_def)

lemma tutorial3_returns:
  assumes "0 \<le> N"
  shows "\<exists>mu. tutorial3 d N w =
      Inr (mu, np_round ((clock w (ticks w + 2) - clock w (ticks w + 1)) * 1000) 1)"
  using assms
  by (simp add: tutorial3_def generate_returns estimate_returns Let_def)

lemma rint_near: "\<bar>of_int (rint x) - x\<bar> \<le> 1 / 2"
proof -
  have "of_int \<lfloor>x\<rfloor> \<le> x" "x < of_int \<lfloor>x\<rfloor> + 1"
    by linarith+
  then show ?thesis
    by (auto simp: rint_def Let_def)
qed

lemma np_round_one_decimal:
  "\<bar>np_round t 1 - t\<bar> \<le> 1 / 20 \<and> (\<exists>k::int. np_round t 1 = of_int k / 10)"
proof -
  have "\<bar>of_int (rint (t * 10)) - t * 10\<bar> \<le> 1 / 2"
    by (rule rint_near)
  then have "\<bar>np_round t 1 - t\<bar> \<le> 1 / 20"
    by (simp add: np_round_def field_simps abs_if split: if_splits)
  moreover have "\<exists>k::int. np_round t 1 = of_int k / 10"
    by (simp add: np_round_def)
  ultimately show ?thesis ..
qed

lemma upt4: "[0..<nat 4] = [0, 1, 2, 3]"
  by (simp add: upt_rec)

section \<open>The claims\<close>

text \<open>
  Claim C1 (referential integrity): every persisted Distance row should reference the
  identifier of an existing Object row, as the schema declares. The notebook as written
  (100 objects, 100 distances, no store file beforehand) breaks this: the first distance
  row carries \<^verbatim>\<open>object_id\<close> 0, the loop counter, while the object identifiers are 1 to 100.
\<close>

theorem first_distance_references_no_object:
  "\<exists>s d. catalog_workflow 100 g no_file = Inr s
      \<and> first (query_Distance s) = Some d
      \<and> object_id d = 0
      \<and> map oid (query_Object s) = [1..100]
      \<and> \<not> referential_integrity (store s)"
proof -
  let ?objs = "object_rows g 1 100"
  let ?dists = "distance_rows (g\<lparr>drawn := drawn g + 2 * 100\<rparr>) 1 100"
  let ?s = "\<lparr>store = \<lparr>object_table = ?objs, distance_table = ?dists\<rparr>, new = [],
             trace = concat (replicate 100 [INSERT ''object'', COMMIT]) @
                     concat (replicate 100 [INSERT ''distance'', COMMIT])\<rparr>"
  have run: "catalog_workflow 100 g no_file = Inr ?s"
    by (rule fresh_workflow[OF fresh_start_no_file])
  have qd: "query_Distance ?s = ?dists"
    by (simp add: query_Distance_flushed)
  have qo: "query_Object ?s = ?objs"
    by (simp add: query_Object_flushed)
  obtain d where d: "first ?dists = Some d" "object_id d = 0"
    using first_distance_rows[of 100 "g\<lparr>drawn := drawn g + 2 * 100\<rparr>" 1] by auto
  from d(1) have mem: "d \<in> set ?dists"
    by (auto simp: first_def split: list.splits)
  have ids: "map oid (query_Object ?s) = [1..100]"
    unfolding qo by (simp add: oid_object_rows)
  have "object_id d \<notin> set (map oid ?objs)"
    unfolding d(2) by (rule no_object_zero)
  with mem have "\<not> list_all (\<lambda>d. object_id d \<in> set (map oid ?objs)) ?dists"
    unfolding list_all_iff by blast
  then have viol: "\<not> referential_integrity (store ?s)"
    by (simp add: referential_integrity_def)
  from d(1) have fd: "first (query_Distance ?s) = Some d"
    unfolding qd .
  from run fd d(2) ids viol show ?thesis
    by blast
qed

text \<open>
  Claim C2: after the workflow has inserted \<open>N\<close> objects into a fresh store, a full scan
  of the object table returns exactly \<open>N\<close> rows whose identifiers are 1, 2, ..., \<open>N\<close> in
  this order, and (when there is a row at all) the first object is the one with
  identifier 1.
\<close>

theorem object_ids_contiguous:
  assumes "fresh_start fs"
  shows "\<exists>s. catalog_workflow N g fs = Inr s
      \<and> length (query_Object s) = N
      \<and> map oid (query_Object s) = [1..int N]
      \<and> (0 < N \<longrightarrow> (\<exists>ob. first (query_Object s) = Some ob \<and> oid ob = 1))"
  using first_object_rows[of N g 1]
  by (simp add: fresh_workflow[OF assms] query_Object_flushed length_object_rows oid_object_rows)

text \<open>The notebook's count, on a store file left by an earlier run and removable.\<close>

theorem object_ids_contiguous_witness:
  "fresh_start removable_file \<and>
   (\<exists>s. catalog_workflow 100 rng0 removable_file = Inr s
      \<and> length (query_Object s) = 100
      \<and> map oid (query_Object s) = [1..100]
      \<and> (\<exists>ob. first (query_Object s) = Some ob \<and> oid ob = 1))"
proof -
  have h: "fresh_start removable_file"
    by (simp add: fresh_start_def removable_file_def)
  show ?thesis
    using h object_ids_contiguous[OF h, of 100 rng0] by simp
qed

text \<open>
  Claim C3: the \<open>N\<close> distance rows the workflow appends to the rows the store already
  held carry the \<^verbatim>\<open>object_id\<close> values 0, 1, ..., \<open>N - 1\<close> in insertion order, each once.
\<close>

theorem distance_object_ids_counter:
  "\<exists>s new. catalog_workflow N g fs = Inr s
     \<and> query_Distance s = distance_table (opened_store fs) @ new
     \<and> length new = N
     \<and> map object_id new = map int [0..<N]
     \<and> distinct (map object_id new)"
  by (simp add: workflow_closed query_Distance_flushed length_distance_rows
      object_id_distance_rows distinct_int_upt del: distinct_map)

text \<open>
  Claim C4: for a population at distance \<open>mu\<close> (the attribute \<^verbatim>\<open>distance\<close> of \<open>self\<close>), a
  count \<open>N\<close>, a fractional error \<open>sigma\<close> and the next \<open>N\<close> standard-normal samples
  \<open>z\<close>, \<^verbatim>\<open>generate\<close> stores exactly \<open>N\<close> observations, the \<open>k\<close>-th being
  \<open>mu + sigma * mu * z k\<close>, and \<^verbatim>\<open>estimate_mean_distance\<close> then returns their arithmetic
  mean (numpy's \<^verbatim>\<open>nan\<close> when \<open>N\<close> is 0).
\<close>

theorem generate_then_estimate_mean:
  assumes "0 \<le> N"
  shows "\<exists>p w1 obs t w2.
      generate N sigma self w = (Inr (), p, w1)
    \<and> self_d_obs p = Some obs
    \<and> length obs = nat N
    \<and> obs = map (\<lambda>k. self_distance self + sigma * self_distance self *
                       normal_tape w (normal_drawn w + k)) [0..<nat N]
    \<and> estimate_mean_distance p w1 =
        (Inr (if N = 0 then NaN else Finite (sum_list obs / real (length obs)), t), p, w2)"
  using assms
  by (simp add: generate_returns estimate_returns)

text \<open>Four stars at distance 3 with samples 1, -1, 1, -1: the estimate is 3.\<close>

theorem generate_then_estimate_mean_witness:
  "(0::int) \<le> 4 \<and>
   (\<exists>p w1 t w2.
      generate 4 (1 / 10) (StellarPopulation_init 3) world0 = (Inr (), p, w1)
    \<and> self_d_obs p = Some [33 / 10, 27 / 10, 33 / 10, 27 / 10]
    \<and> estimate_mean_distance p w1 = (Inr (Finite 3, t), p, w2))"
proof -
  have h: "(0::int) \<le> 4" by simp
  obtain p w1 obs t w2 where
    g: "generate 4 (1 / 10) (StellarPopulation_init 3) world0 = (Inr (), p, w1)"
    and o: "self_d_obs p = Some obs"
    and v: "obs = map (\<lambda>k. self_distance (StellarPopulation_init 3) +
               1 / 10 * self_distance (StellarPopulation_init 3) *
               normal_tape world0 (normal_drawn world0 + k)) [0..<nat 4]"
    and e: "estimate_mean_distance p w1 =
        (Inr (if (4::int) = 0 then NaN else Finite (sum_list obs / real (length obs)), t), p, w2)"
    using generate_then_estimate_mean[OF h, of "1 / 10" "StellarPopulation_init 3" world0]
    by blast
  have obs: "obs = [33 / 10, 27 / 10, 33 / 10, 27 / 10]"
    unfolding v upt4
    by (simp add: StellarPopulation_init_def world0_def alternating_def)
  show ?thesis
    using h g o e unfolding obs by auto
qed

text \<open>
  Claim C5, as amended: when the run starts fresh (the store file is missing, or the
  operating system lets it be removed), the first distance row whose \<^verbatim>\<open>object_id\<close>
  equals \<open>v\<close> exists, and is the only such row, when \<open>v\<close> is one of 0, ..., \<open>N - 1\<close>;
  otherwise no row matches and \<^verbatim>\<open>first()\<close> returns \<^verbatim>\<open>None\<close>, a value and not an
  exception.
\<close>

theorem filter_first_by_object_id:
  assumes "fresh_start fs"
  shows "\<exists>s. catalog_workflow N g fs = Inr s \<and>
     (if 0 \<le> v \<and> v < int N
      then length (filter_object_id v (query_Distance s)) = 1 \<and>
           (\<exists>d. first (filter_object_id v (query_Distance s)) = Some d \<and> object_id d = v)
      else filter_object_id v (query_Distance s) = [] \<and>
           first (filter_object_id v (query_Distance s)) = None)"
  by (simp add: fresh_workflow[OF assms] query_Distance_flushed filter_distance_rows first_def)

text \<open>The notebook's query for 80, and the query for 100, which no row carries.\<close>

theorem filter_first_by_object_id_witness:
  "fresh_start removable_file \<and>
   (\<exists>s. catalog_workflow 100 rng0 removable_file = Inr s
      \<and> length (filter_object_id 80 (query_Distance s)) = 1
      \<and> (\<exists>d. first (filter_object_id 80 (query_Distance s)) = Some d \<and> object_id d = 80)
      \<and> filter_object_id 100 (query_Distance s) = []
      \<and> first (filter_object_id 100 (query_Distance s)) = None)"
proof -
  have h: "fresh_start removable_file"
    by (simp add: fresh_start_def removable_file_def)
  show ?thesis
    using h filter_first_by_object_id[OF h, of 100 rng0 80]
      filter_first_by_object_id[OF h, of 100 rng0 100]
    by auto
qed

text \<open>
  The claim as stated, for whatever store the run fills, fails when the removal is
  refused and the rows of an earlier run stay: a run of one insert never uses 7, yet the
  query for 7 returns the earlier row; after the notebook's 100 inserts two rows match 7
  and \<^verbatim>\<open>first()\<close> returns the earlier one, not the row this run generated.
\<close>

theorem refused_removal_filter_finds_earlier_row:
  "map_sum id (first \<circ> filter_object_id 7 \<circ> query_Distance)
       (catalog_workflow 1 rng0 locked_file) =
     Inr (Some \<lparr>did = 1, object_id = 7, distance = 50\<rparr>)
   \<and> map_sum id (length \<circ> filter_object_id 7 \<circ> query_Distance)
       (catalog_workflow 100 rng0 locked_file) = Inr 2
   \<and> map_sum id (first \<circ> filter_object_id 7 \<circ> query_Distance)
       (catalog_workflow 100 rng0 locked_file) =
     Inr (Some \<lparr>did = 1, object_id = 7, distance = 50\<rparr>)"
proof -
  have "opened_store locked_file = earlier_run"
    by (rule opened_store_refused[of _ EACCES]) (simp_all add: locked_file_def)
  then show ?thesis
    by (simp add: workflow_closed query_Distance_flushed earlier_run_def
        filter_object_id_Cons filter_distance_rows first_def)
qed

text \<open>
  Claim C6, as amended: when the run starts fresh (the store file is missing, or the
  operating system lets it be removed), the result does not depend on what an earlier
  run left in the file, and the two tables hold exactly the rows of this run.
\<close>

theorem fresh_start_discards_earlier_run:
  assumes "fresh_start fs"
  shows "catalog_workflow N g fs = catalog_workflow N g no_file \<and>
     (\<exists>s. catalog_workflow N g fs = Inr s
        \<and> query_Object s = object_rows g 1 N
        \<and> query_Distance s = distance_rows (g\<lparr>drawn := drawn g + 2 * N\<rparr>) 1 N)"
proof -
  have "fresh_start no_file"
    by (simp add: fresh_start_def no_file_def)
  then show ?thesis
    by (simp add: fresh_workflow[OF assms] fresh_workflow[of no_file]
        query_Object_flushed query_Distance_flushed)
qed

theorem fresh_start_discards_earlier_run_witness:
  "fresh_start removable_file \<and>
   catalog_workflow 100 rng0 removable_file = catalog_workflow 100 rng0 no_file \<and>
   (\<exists>s. catalog_workflow 100 rng0 removable_file = Inr s
      \<and> query_Object s = object_rows rng0 1 100
      \<and> query_Distance s = distance_rows (rng0\<lparr>drawn := drawn rng0 + 2 * 100\<rparr>) 1 100)"
proof -
  have h: "fresh_start removable_file"
    by (simp add: fresh_start_def removable_file_def)
  show ?thesis
    using h fresh_start_discards_earlier_run[OF h, of 100 rng0] by (rule conjI)
qed

text \<open>
  The claim as stated, for every prior state of the file, fails when the removal is
  refused: the bare \<^verbatim>\<open>except\<close> swallows the error, \<^verbatim>\<open>create_all\<close> finds the tables of
  the earlier run, and the new objects are appended after the old one: after the
  notebook's 100 inserts the table has 101 rows and its first row is the old one.
\<close>

theorem refused_removal_keeps_earlier_run:
  "map_sum id (length \<circ> query_Object) (catalog_workflow 100 rng0 locked_file) = Inr 101
   \<and> map_sum id (first \<circ> query_Object) (catalog_workflow 100 rng0 locked_file) =
       Inr (Some \<lparr>oid = 1, ra = 10, dec = - 31\<rparr>)
   \<and> map_sum id (map oid \<circ> query_Object) (catalog_workflow 1 rng0 locked_file) = Inr [1, 2]"
proof -
  have "opened_store locked_file = earlier_run"
    by (rule opened_store_refused[of _ EACCES]) (simp_all add: locked_file_def)
  then show ?thesis
    by (simp add: workflow_closed query_Object_flushed earlier_run_def length_object_rows
        first_def next_rowid_def oid_object_rows)
qed

text \<open>
  Claim C7: every insert is followed by its own commit before the next insert: the SQL
  trace of the run is \<open>N\<close> times insert-then-commit on the object table followed by \<open>N\<close>
  times insert-then-commit on the distance table, so \<open>2 * N\<close> rows cost \<open>2 * N\<close> commits.
\<close>

theorem one_commit_per_insert:
  "\<exists>s. catalog_workflow N g fs = Inr s
     \<and> trace s = concat (replicate N [INSERT ''object'', COMMIT]) @
                 concat (replicate N [INSERT ''distance'', COMMIT])
     \<and> count_list (trace s) COMMIT = 2 * N
     \<and> count_list (trace s) (INSERT ''object'') = N
     \<and> count_list (trace s) (INSERT ''distance'') = N"
  by (simp add: workflow_closed count_list_concat_replicate)

text \<open>
  Claim C8: next to the estimate, \<^verbatim>\<open>estimate_mean_distance\<close> returns the difference of the
  clock readings taken right before and right after \<^verbatim>\<open>np.mean\<close>, times 1000
  (milliseconds); in the notebook's run the interval in which the samples were generated is
  not part of it, and what is printed is that time rounded to one decimal place (a
  multiple of one tenth, at most one twentieth away).
\<close>

theorem elapsed_time_of_mean_only:
  "(self_d_obs self = Some obs \<longrightarrow>
      (\<exists>mu w1. estimate_mean_distance self w =
         (Inr (mu, (clock w (ticks w + 1) - clock w (ticks w)) * 1000), self, w1)))
   \<and> (0 \<le> N \<longrightarrow>
      (\<exists>mu. tutorial3 d N w =
         Inr (mu, np_round ((clock w (ticks w + 2) - clock w (ticks w + 1)) * 1000) 1)))
   \<and> \<bar>np_round t 1 - t\<bar> \<le> 1 / 20
   \<and> (\<exists>k::int. np_round t 1 = of_int k / 10)"
  using tutorial3_returns[of N d w] np_round_one_decimal[of t]
  by (simp add: estimate_returns)

text \<open>Generation takes 7 seconds and the mean 5.5 milliseconds: 5.5 is printed.\<close>

theorem elapsed_time_of_mean_only_witness:
  "self_d_obs (StellarPopulation_init 3\<lparr>self_d_obs := Some [3]\<rparr>) = Some [3]
   \<and> (\<exists>mu w1. estimate_mean_distance (StellarPopulation_init 3\<lparr>self_d_obs := Some [3]\<rparr>)
          (world0\<lparr>ticks := 1\<rparr>) =
        (Inr (mu, 11 / 2), StellarPopulation_init 3\<lparr>self_d_obs := Some [3]\<rparr>, w1))
   \<and> (0::int) \<le> 4
   \<and> (\<exists>mu. tutorial3 3 4 world0 = Inr (mu, 11 / 2))"
proof -
  have a: "self_d_obs (StellarPopulation_init 3\<lparr>self_d_obs := Some [3]\<rparr>) = Some [3]"
    by simp
  have b: "(0::int) \<le> 4" by simp
  have r: "np_round (11 / 2) 1 = 11 / 2"
    by (simp add: np_round_def rint_def)
  have c: "(clock world0 (ticks world0 + 2) - clock world0 (ticks world0 + 1)) * 1000 = 11 / 2"
    by (simp add: world0_def seconds_def)
  have c': "(clock (world0\<lparr>ticks := 1\<rparr>) (ticks (world0\<lparr>ticks := 1\<rparr>) + 1) -
      clock (world0\<lparr>ticks := 1\<rparr>) (ticks (world0\<lparr>ticks := 1\<rparr>))) * 1000 = 11 / 2"
    by (simp add: world0_def seconds_def)
  show ?thesis
    using a b
      elapsed_time_of_mean_only[of "StellarPopulation_init 3\<lparr>self_d_obs := Some [3]\<rparr>" "[3]"
        "world0\<lparr>ticks := 1\<rparr>" 4 3 0]
      elapsed_time_of_mean_only[of "StellarPopulation_init 3\<lparr>self_d_obs := Some [3]\<rparr>" "[3]"
        world0 4 3 0]
    unfolding c c' r by blast
qed

text \<open>
  Claim C9: \<^verbatim>\<open>estimate_mean_distance\<close> hands back the population it was given (all five
  attributes unchanged, also when it raises), and the estimate does not depend on when the
  call is made: repeated calls return the same estimate.
\<close>

theorem estimate_leaves_population_unchanged:
  "\<exists>r w1. estimate_mean_distance self w = (r, self, w1)
     \<and> map_sum id fst (fst (estimate_mean_distance self w')) = map_sum id fst r"
  by (cases "self_d_obs self") (simp_all add: estimate_returns estimate_raises)

text \<open>
  Claim C10: the removal cell never lets an exception out, whatever \<^verbatim>\<open>os.remove\<close> raised
  (the refusal \<open>e\<close> of the operating system, or the missing file), and leaves the disk as
  it was in those cases; the run then goes on with the cells from \<^verbatim>\<open>create_engine\<close>.
\<close>

theorem removal_failures_suppressed:
  "fst (remove_stale fs) = Inr ()
   \<and> catalog_workflow N g fs = Inr (populate N g (snd (remove_stale fs)))
   \<and> (unlink_fault fs = Some e \<longrightarrow>
        fst (os_remove dbfile fs) = Inl (OSError e) \<and> snd (remove_stale fs) = fs)
   \<and> (unlink_fault fs = None \<and> files fs dbfile = None \<longrightarrow>
        fst (os_remove dbfile fs) = Inl (OSError ENOENT) \<and> snd (remove_stale fs) = fs)"
proof -
  have "unlink_fault fs = Some e \<longrightarrow>
        fst (os_remove dbfile fs) = Inl (OSError e) \<and> snd (remove_stale fs) = fs"
    by (simp add: remove_stale_def os_remove_def)
  moreover have "unlink_fault fs = None \<and> files fs dbfile = None \<longrightarrow>
        fst (os_remove dbfile fs) = Inl (OSError ENOENT) \<and> snd (remove_stale fs) = fs"
    by (simp add: remove_stale_def os_remove_def)
  ultimately show ?thesis
    using remove_stale_returns[of fs] workflow_returns[of N g fs] by blast
qed

text \<open>A store file whose removal is denied, and a missing store file.\<close>

theorem removal_failures_suppressed_witness:
  "unlink_fault locked_file = Some EACCES
   \<and> fst (os_remove dbfile locked_file) = Inl (OSError EACCES)
   \<and> fst (remove_stale locked_file) = Inr ()
   \<and> snd (remove_stale locked_file) = locked_file
   \<and> catalog_workflow 100 rng0 locked_file = Inr (populate 100 rng0 locked_file)
   \<and> unlink_fault no_file = None \<and> files no_file dbfile = None
   \<and> fst (os_remove dbfile no_file) = Inl (OSError ENOENT)
   \<and> fst (remove_stale no_file) = Inr ()"
proof -
  have a: "unlink_fault locked_file = Some EACCES"
    by (simp add: locked_file_def)
  have b: "unlink_fault no_file = None \<and> files no_file dbfile = None"
    by (simp add: no_file_def)
  show ?thesis
    using a b removal_failures_suppressed[of locked_file 100 rng0 EACCES]
      removal_failures_suppressed[of no_file 100 rng0 EACCES]
    by simp
qed

end
